theory Spec2Isabelle
  imports Main
begin

section \<open>JSON values and the built-ins JSON.stringify and JSON.parse\<close>

text \<open>
  The cache stores what \<open>JSON.stringify\<close> produces and reads it back with
  \<open>JSON.parse\<close>. Both are built-ins of the runtime, so they are modelled here, following
  ECMAScript: a value is null, a boolean, a number, a string, an array or an object.
  Numbers are integers (no floating point in this development; a number text with a
  fraction or an exponent is refused), strings are lists of 8-bit characters, and an object
  is the list of its properties in property order.
\<close>

datatype json =
    JNull
  | JBool bool
  | JNum int
  | JStr string
  | JArr "json list"
  | JObj "(string \<times> json) list"

text \<open>
  \<open>JSON.stringify\<close> without indentation: numbers in decimal, strings quoted with the
  escapes of \<open>QuoteJSONString\<close> (quote, backslash, the five short control escapes and
  \<open>\u00XX\<close> for the other characters below 0x20), arrays and objects joined by commas.
\<close>

definition digit_char :: "nat \<Rightarrow> char" where
  "digit_char d = char_of (48 + d)"

fun nat_digits :: "nat \<Rightarrow> string" where
  "nat_digits n = (if n < 10 then [digit_char n] else nat_digits (n div 10) @ [digit_char (n mod 10)])"

declare nat_digits.simps [simp del]

definition number_str :: "int \<Rightarrow> string" where
  "number_str i = (if i < 0 then CHR ''-'' # nat_digits (nat (- i)) else nat_digits (nat i))"

definition hex_char :: "nat \<Rightarrow> char" where
  "hex_char d = (if d < 10 then char_of (48 + d) else char_of (87 + d))"

definition escape_char :: "char \<Rightarrow> string" where
  "escape_char c =
     (if c = CHR 0x22 then [CHR 0x5C, CHR 0x22]
      else if c = CHR 0x5C then [CHR 0x5C, CHR 0x5C]
      else if c = CHR 0x08 then [CHR 0x5C, CHR ''b'']
      else if c = CHR 0x0C then [CHR 0x5C, CHR ''f'']
      else if c = CHR 0x0A then [CHR 0x5C, CHR ''n'']
      else if c = CHR 0x0D then [CHR 0x5C, CHR ''r'']
      else if c = CHR 0x09 then [CHR 0x5C, CHR ''t'']
      else if (of_char c :: nat) < 32
        then [CHR 0x5C, CHR ''u'', CHR ''0'', CHR ''0'',
              hex_char (of_char c div 16), hex_char (of_char c mod 16)]
      else [c])"

definition quote :: "string \<Rightarrow> string" where
  "quote s = CHR 0x22 # concat (map escape_char s) @ [CHR 0x22]"

fun join :: "string \<Rightarrow> string list \<Rightarrow> string" where
  "join sep [] = []"
| "join sep [x] = x"
| "join sep (x # y # ys) = x @ sep @ join sep (y # ys)"

fun stringify :: "json \<Rightarrow> string" where
  "stringify JNull = ''null''"
| "stringify (JBool b) = (if b then ''true'' else ''false'')"
| "stringify (JNum i) = number_str i"
| "stringify (JStr s) = quote s"
| "stringify (JArr vs) = ''['' @ join '','' (map stringify vs) @ '']''"
| "stringify (JObj kvs) =
     ''{'' @ join '','' (map (\<lambda>kv. quote (fst kv) @ '':'' @ stringify (snd kv)) kvs) @ ''}''"

text \<open>
  \<open>JSON.parse\<close>: a recursive-descent parser that skips white space, reads the literals,
  numbers without leading zeros, strings with their escapes, arrays and objects. The
  recursion is bounded by fuel; \<open>JSON_parse\<close> supplies the length of the input, which is
  enough because every nested value consumes at least one character. A result of
  \<open>None\<close> is the \<open>SyntaxError\<close> that the caller catches. A repeated key in an object
  overwrites the earlier value in place, as property assignment does. An escape
  \<open>\uXXXX\<close> for a character above 0xFF has no 8-bit character and is refused.
\<close>

definition is_ws :: "char \<Rightarrow> bool" where
  "is_ws c \<longleftrightarrow> c = CHR '' '' \<or> c = CHR 0x09 \<or> c = CHR 0x0A \<or> c = CHR 0x0D"

definition skip_ws :: "string \<Rightarrow> string" where
  "skip_ws = dropWhile is_ws"

definition is_digit :: "char \<Rightarrow> bool" where
  "is_digit c \<longleftrightarrow> 48 \<le> (of_char c :: nat) \<and> (of_char c :: nat) \<le> 57"

definition digit_val :: "char \<Rightarrow> nat" where
  "digit_val c = of_char c - 48"

definition nat_of_digits :: "string \<Rightarrow> nat" where
  "nat_of_digits ds = foldl (\<lambda>acc d. 10 * acc + digit_val d) 0 ds"

definition parse_number :: "string \<Rightarrow> (json \<times> string) option" where
  "parse_number s =
     (let neg = (take 1 s = ''-'');
          body = (if neg then drop 1 s else s);
          ds = takeWhile is_digit body;
          rest = dropWhile is_digit body
      in if ds = [] then None
         else if take 1 ds = ''0'' \<and> 1 < length ds then None
         else Some (JNum (if neg then - int (nat_of_digits ds) else int (nat_of_digits ds)), rest))"

definition hex_val :: "char \<Rightarrow> nat option" where
  "hex_val c =
     (let n = (of_char c :: nat)
      in if 48 \<le> n \<and> n \<le> 57 then Some (n - 48)
         else if 97 \<le> n \<and> n \<le> 102 then Some (n - 87)
         else if 65 \<le> n \<and> n \<le> 70 then Some (n - 55)
         else None)"

definition hex4 :: "string \<Rightarrow> nat option" where
  "hex4 s =
     (case map hex_val (take 4 s) of
        [Some a, Some b, Some c, Some d] \<Rightarrow> Some (((a * 16 + b) * 16 + c) * 16 + d)
      | _ \<Rightarrow> None)"

definition unescape :: "char \<Rightarrow> char option" where
  "unescape e =
     (if e = CHR 0x22 then Some (CHR 0x22)
      else if e = CHR 0x5C then Some (CHR 0x5C)
      else if e = CHR ''/'' then Some (CHR ''/'')
      else if e = CHR ''b'' then Some (CHR 0x08)
      else if e = CHR ''f'' then Some (CHR 0x0C)
      else if e = CHR ''n'' then Some (CHR 0x0A)
      else if e = CHR ''r'' then Some (CHR 0x0D)
      else if e = CHR ''t'' then Some (CHR 0x09)
      else None)"

definition cons_fst :: "'a \<Rightarrow> ('a list \<times> 'b) option \<Rightarrow> ('a list \<times> 'b) option" where
  "cons_fst x r = map_option (\<lambda>p. (x # fst p, snd p)) r"

fun parse_chars :: "string \<Rightarrow> (string \<times> string) option" where
  "parse_chars [] = None"
| "parse_chars (c # r) =
     (if c = CHR 0x22 then Some ([], r)
      else if c = CHR 0x5C then
        (case r of
           [] \<Rightarrow> None
         | e # r' \<Rightarrow>
             if e = CHR ''u'' then
               (case hex4 r' of
                  None \<Rightarrow> None
                | Some n \<Rightarrow> if n < 256 then cons_fst (char_of n) (parse_chars (drop 4 r')) else None)
             else
               (case unescape e of
                  None \<Rightarrow> None
                | Some ch \<Rightarrow> cons_fst ch (parse_chars r')))
      else if (of_char c :: nat) < 32 then None
      else cons_fst c (parse_chars r))"

fun strip_prefix :: "string \<Rightarrow> string \<Rightarrow> string option" where
  "strip_prefix [] s = Some s"
| "strip_prefix (p # ps) [] = None"
| "strip_prefix (p # ps) (c # cs) = (if p = c then strip_prefix ps cs else None)"

fun obj_put :: "string \<Rightarrow> 'a \<Rightarrow> (string \<times> 'a) list \<Rightarrow> (string \<times> 'a) list" where
  "obj_put k v [] = [(k, v)]"
| "obj_put k v (p # ps) = (if fst p = k then (k, v) # ps else p # obj_put k v ps)"

definition obj_of :: "(string \<times> json) list \<Rightarrow> (string \<times> json) list" where
  "obj_of ms = foldl (\<lambda>acc kv. obj_put (fst kv) (snd kv) acc) [] ms"

fun parse_value :: "nat \<Rightarrow> string \<Rightarrow> (json \<times> string) option"
  and parse_elems :: "nat \<Rightarrow> string \<Rightarrow> (json list \<times> string) option"
  and parse_membs :: "nat \<Rightarrow> string \<Rightarrow> ((string \<times> json) list \<times> string) option"
where
  "parse_value 0 s = None"
| "parse_value (Suc n) s =
     (case skip_ws s of
        [] \<Rightarrow> None
      | c # r \<Rightarrow>
          if c = CHR ''n'' then map_option (Pair JNull) (strip_prefix ''ull'' r)
          else if c = CHR ''t'' then map_option (Pair (JBool True)) (strip_prefix ''rue'' r)
          else if c = CHR ''f'' then map_option (Pair (JBool False)) (strip_prefix ''alse'' r)
          else if c = CHR 0x22 then map_option (\<lambda>p. (JStr (fst p), snd p)) (parse_chars r)
          else if c = CHR ''['' then
            (if take 1 (skip_ws r) = '']'' then Some (JArr [], drop 1 (skip_ws r))
             else map_option (\<lambda>p. (JArr (fst p), snd p)) (parse_elems n r))
          else if c = CHR ''{'' then
            (if take 1 (skip_ws r) = ''}'' then Some (JObj [], drop 1 (skip_ws r))
             else map_option (\<lambda>p. (JObj (obj_of (fst p)), snd p)) (parse_membs n r))
          else parse_number (c # r))"
| "parse_elems 0 s = None"
| "parse_elems (Suc n) s =
     (case parse_value n s of
        None \<Rightarrow> None
      | Some (v, t) \<Rightarrow>
          (case skip_ws t of
             [] \<Rightarrow> None
           | c # t' \<Rightarrow>
               if c = CHR '','' then cons_fst v (parse_elems n t')
               else if c = CHR '']'' then Some ([v], t')
               else None))"
| "parse_membs 0 s = None"
| "parse_membs (Suc n) s =
     (case skip_ws s of
        [] \<Rightarrow> None
      | q # r \<Rightarrow>
          if q \<noteq> CHR 0x22 then None
          else
            (case parse_chars r of
               None \<Rightarrow> None
             | Some (k, t) \<Rightarrow>
                 (case skip_ws t of
                    [] \<Rightarrow> None
                  | c # t' \<Rightarrow>
                      if c \<noteq> CHR '':'' then None
                      else
                        (case parse_value n t' of
                           None \<Rightarrow> None
                         | Some (v, u) \<Rightarrow>
                             (case skip_ws u of
                                [] \<Rightarrow> None
                              | d # u' \<Rightarrow>
                                  if d = CHR '','' then cons_fst (k, v) (parse_membs n u')
                                  else if d = CHR ''}'' then Some ([(k, v)], u')
                                  else None)))))"

definition JSON_parse :: "string \<Rightarrow> json option" where
  "JSON_parse s =
     (case parse_value (length s) s of
        None \<Rightarrow> None
      | Some (v, rest) \<Rightarrow> if skip_ws rest = [] then Some v else None)"




section \<open>JavaScript values, promises and observable events\<close>

text \<open>
  The values the code passes around: \<open>undefined\<close>, JSON-like data, \<open>Error\<close> objects and
  arrays of such values (the result of \<open>Promise.all\<close>). A promise is pending, resolved
  or rejected.
\<close>

datatype val =
    Undefined
  | Json json
  | ErrorObj string
  | Arr "val list"

abbreviation Null :: val where "Null \<equiv> Json JNull"
abbreviation Str :: "string \<Rightarrow> val" where "Str s \<equiv> Json (JStr s)"

datatype outcome = Pending | Resolved val | Rejected val

text \<open>
  What a run of one of the functions does is recorded as a list of events in the order in
  which they happen: console output, requests to the file system and to the network, the
  assignment to the module variable \<open>tmdbImagesBaseUrl\<close>, the calls of the \<open>resolve\<close>
  and \<open>reject\<close> functions of the promise the function returns, and an exception that
  leaves a callback uncaught. A promise is settled by the first call of \<open>resolve\<close> or
  \<open>reject\<close>; later calls have no effect.
\<close>

datatype event =
    ConsoleLog "val list"
  | ConsoleError "val list"
  | FsStat string
  | FsReadFile string
  | FsWriteFile string "string option"
  | FsCreateWriteStream string
  | MovieDB_movieInfo string
  | MovieDB_configuration
  | Request string
  | Assign_tmdbImagesBaseUrl val
  | Resolve val
  | Reject val
  | Uncaught val

fun is_settle :: "event \<Rightarrow> bool" where
  "is_settle (Resolve v) = True"
| "is_settle (Reject v) = True"
| "is_settle e = False"

fun settled :: "event list \<Rightarrow> outcome" where
  "settled [] = Pending"
| "settled (Resolve v # es) = Resolved v"
| "settled (Reject v # es) = Rejected v"
| "settled (e # es) = settled es"

definition inner_events :: "event list \<Rightarrow> event list" where
  "inner_events tr = filter (\<lambda>e. \<not> is_settle e) tr"

fun is_io :: "event \<Rightarrow> bool" where
  "is_io (FsStat p) = True"
| "is_io (FsReadFile p) = True"
| "is_io (FsWriteFile p d) = True"
| "is_io (FsCreateWriteStream p) = True"
| "is_io (MovieDB_movieInfo i) = True"
| "is_io MovieDB_configuration = True"
| "is_io (Request u) = True"
| "is_io e = False"

fun is_network :: "event \<Rightarrow> bool" where
  "is_network (MovieDB_movieInfo i) = True"
| "is_network MovieDB_configuration = True"
| "is_network (Request u) = True"
| "is_network e = False"

fun is_uncaught :: "event \<Rightarrow> bool" where
  "is_uncaught (Uncaught v) = True"
| "is_uncaught e = False"

fun is_reject :: "event \<Rightarrow> bool" where
  "is_reject (Reject v) = True"
| "is_reject e = False"

text \<open>
  String conversion as done by \<open>+\<close> with a string operand, truthiness as tested by
  \<open>if (err)\<close>, property access (which throws a \<open>TypeError\<close> on \<open>null\<close> and
  \<open>undefined\<close>) and array indexing.
\<close>

fun json_to_str :: "json \<Rightarrow> string" where
  "json_to_str JNull = ''null''"
| "json_to_str (JBool b) = (if b then ''true'' else ''false'')"
| "json_to_str (JNum i) = number_str i"
| "json_to_str (JStr s) = s"
| "json_to_str (JArr vs) = join '','' (map (\<lambda>v. if v = JNull then [] else json_to_str v) vs)"
| "json_to_str (JObj kvs) = ''[object Object]''"

fun to_str :: "val \<Rightarrow> string" where
  "to_str Undefined = ''undefined''"
| "to_str (Json j) = json_to_str j"
| "to_str (ErrorObj m) = ''Error: '' @ m"
| "to_str (Arr vs) =
     join '','' (map (\<lambda>v. if v = Undefined \<or> v = Null then [] else to_str v) vs)"

fun truthy :: "val \<Rightarrow> bool" where
  "truthy Undefined = False"
| "truthy (Json JNull) = False"
| "truthy (Json (JBool b)) = b"
| "truthy (Json (JNum i)) = (i \<noteq> 0)"
| "truthy (Json (JStr s)) = (s \<noteq> [])"
| "truthy v = True"

definition type_error :: val where
  "type_error = ErrorObj ''TypeError''"

fun get_prop :: "val \<Rightarrow> string \<Rightarrow> val + val" where
  "get_prop Undefined k = Inl type_error"
| "get_prop (Json JNull) k = Inl type_error"
| "get_prop (Json (JObj kvs)) k = Inr (case map_of kvs k of None \<Rightarrow> Undefined | Some v \<Rightarrow> Json v)"
| "get_prop (ErrorObj m) k =
     Inr (if k = ''message'' then Str m else if k = ''name'' then Str ''Error'' else Undefined)"
| "get_prop v k = Inr Undefined"

fun get_index :: "val \<Rightarrow> nat \<Rightarrow> val" where
  "get_index (Arr vs) i = (if i < length vs then vs ! i else Undefined)"
| "get_index (Json (JArr js)) i = (if i < length js then Json (js ! i) else Undefined)"
| "get_index v i = Undefined"

text \<open>
  The \<open>data\<close> argument that the service library hands to a callback is a parsed JSON body
  or \<open>undefined\<close> (\<open>None\<close>). \<open>JSON.stringify(undefined)\<close> is \<open>undefined\<close>, and
  \<open>fs.writeFile\<close> writes the string conversion of data that is not a buffer.
\<close>

definition of_data :: "json option \<Rightarrow> val" where
  "of_data d = (case d of None \<Rightarrow> Undefined | Some j \<Rightarrow> Json j)"

definition JSON_stringify :: "json option \<Rightarrow> string option" where
  "JSON_stringify d = map_option stringify d"

definition written_text :: "string option \<Rightarrow> string" where
  "written_text d = (case d of None \<Rightarrow> ''undefined'' | Some s \<Rightarrow> s)"

section \<open>The cache module\<close>

text \<open>
  The module that the driver requires as \<open>./tmdb_cache\<close>. The state it works on:
  the files of the cache, each with its contents and its modification time in
  milliseconds, and the module variable \<open>tmdbImagesBaseUrl\<close> (line 14), which is
  \<open>undefined\<close> until it is assigned.
\<close>

record cache_file =
  contents :: string
  mtime :: int

record world =
  files :: "string \<Rightarrow> cache_file option"
  tmdbImagesBaseUrl :: val

text \<open>
  What the environment answers during one run: the clock read by \<open>new Date()\<close>, the
  \<open>(err, data)\<close> pairs that \<open>MovieDB.movieInfo\<close> and \<open>MovieDB.configuration\<close> pass to
  their callbacks, the \<open>err\<close> that \<open>fs.writeFile\<close> passes to its callback for a path,
  the outcome of an HTTP request (an \<open>error\<close> event, or a \<open>response\<close> event with its
  status code and body), and whether the write stream to a path closes normally.
\<close>

datatype http = HttpError val | HttpResponse int string

record env =
  now :: int
  movieInfo_result :: "string \<Rightarrow> val \<times> json option"
  configuration_result :: "val \<times> json option"
  writeFile_err :: "string \<Rightarrow> val"
  request_result :: "string \<Rightarrow> http"
  writeStream_ok :: "string \<Rightarrow> bool"

text \<open>
  A run of a function that returns a promise: \<open>trace\<close> holds the events up to the end of
  the callback in which the promise is settled, \<open>background\<close> the events of work that was
  started but completes later (the handlers of a cache write), and \<open>world_after\<close> the
  state once that work is done. Runs are sequential: one call, with its background work,
  finishes before the next call starts.
\<close>

record run =
  trace :: "event list"
  background :: "event list"
  world_after :: world

text \<open>
  Lines 9 to 12: the cache locations and the default TTL of 30 days in milliseconds.
\<close>

definition configCacheFilePath :: string where
  "configCacheFilePath = ''./tmdb_cache/configuration.json''"

definition infoCachePath :: string where
  "infoCachePath = ''./tmdb_cache/movie_info/''"

definition postersCachePath :: string where
  "postersCachePath = ''./tmdb_cache/posters/''"

definition defaultTtl :: int where
  "defaultTtl = 1000 * 60 * 60 * 24 * 30"

text \<open>
  Lines 22 to 35: the two path functions, plain string concatenation.
\<close>

definition getInfoCacheFilePathFromId :: "string \<Rightarrow> string" where
  "getInfoCacheFilePathFromId tmdb_id = infoCachePath @ tmdb_id @ ''.json''"

definition getMoviePosterCachePath :: "string \<Rightarrow> string \<Rightarrow> string" where
  "getMoviePosterCachePath posterFileName size' = postersCachePath @ size' @ posterFileName"

text \<open>
  Lines 44 to 54. A falsy \<open>ttl\<close> (absent or 0) means the default. The file date is too old
  when it is strictly before the current date minus the TTL; the result pairs the console
  output with the returned boolean.
\<close>

definition isValidCacheFileDate :: "int \<Rightarrow> int \<Rightarrow> int option \<Rightarrow> event list \<times> bool" where
  "isValidCacheFileDate current fileDate ttl =
     (let ttl' = (case ttl of None \<Rightarrow> defaultTtl | Some t \<Rightarrow> if t \<noteq> 0 then t else defaultTtl);
          oldestValidDate = current - ttl'
      in if fileDate < oldestValidDate
         then ([ConsoleLog [Str ''Cache file is too old.'']], False)
         else ([], True))"

text \<open>
  Lines 62 to 79. \<open>fs.stat\<close> fails for a missing file. For a file that is too old the
  code rejects with the \<open>err\<close> of the successful \<open>stat\<close>, which is \<open>null\<close>.
\<close>

definition enoent :: "string \<Rightarrow> val" where
  "enoent p = ErrorObj (''ENOENT: no such file or directory, '' @ p)"

definition validateCacheFileDate :: "env \<Rightarrow> world \<Rightarrow> string \<Rightarrow> event list \<times> outcome" where
  "validateCacheFileDate e w filePath =
     (case files w filePath of
        None \<Rightarrow> ([FsStat filePath], Rejected (enoent filePath))
      | Some stats \<Rightarrow>
          (case isValidCacheFileDate (now e) (mtime stats) None of
             (logs, valid) \<Rightarrow>
               if \<not> valid then (FsStat filePath # logs, Rejected Null)
               else (FsStat filePath # logs,
                     Resolved (Json (JObj [(''isValidCacheFileDate'', JBool True)])))))"

text \<open>
  Lines 87 to 109: read the file and parse it; a parse exception rejects.
\<close>

definition validateCacheFileContents :: "world \<Rightarrow> string \<Rightarrow> event list \<times> outcome" where
  "validateCacheFileContents w filePath =
     (case files w filePath of
        None \<Rightarrow> ([FsReadFile filePath], Rejected (enoent filePath))
      | Some f \<Rightarrow>
          (case JSON_parse (contents f) of
             None \<Rightarrow> ([FsReadFile filePath], Rejected (ErrorObj ''SyntaxError''))
           | Some parsedContents \<Rightarrow> ([FsReadFile filePath], Resolved (Json parsedContents))))"

text \<open>
  Lines 117 to 130. Both checks are started before either completes, then combined by
  \<open>Promise.all\<close>, which resolves with the array of both results and otherwise rejects
  with the reason of a rejected member. When both reject, which reason wins depends on
  which request completes first; the reason of the date check is taken here, and no caller
  looks at it.
\<close>

fun promise_all2 :: "outcome \<Rightarrow> outcome \<Rightarrow> outcome" where
  "promise_all2 (Resolved a) (Resolved b) = Resolved (Arr [a, b])"
| "promise_all2 (Rejected r) b = Rejected r"
| "promise_all2 a (Rejected r) = Rejected r"
| "promise_all2 a b = Pending"

definition validateCacheFile :: "env \<Rightarrow> world \<Rightarrow> string \<Rightarrow> event list \<times> outcome" where
  "validateCacheFile e w filePath =
     (case validateCacheFileDate e w filePath of
        (ev1, isValidCacheFileDatePromise) \<Rightarrow>
          (case validateCacheFileContents w filePath of
             (ev2, isValidCacheFileContentsPromise) \<Rightarrow>
               (take 1 ev1 @ ev2 @ drop 1 ev1, promise_all2 isValidCacheFileDatePromise isValidCacheFileContentsPromise)))"

text \<open>
  \<open>fs.writeFile\<close>: the environment decides whether the write fails; a successful write
  replaces the file and stamps it with the current time.
\<close>

definition fs_writeFile :: "env \<Rightarrow> world \<Rightarrow> string \<Rightarrow> string option \<Rightarrow> val \<times> world" where
  "fs_writeFile e w filePath fileContents =
     (let err = writeFile_err e filePath
      in if truthy err then (err, w)
         else (err, w\<lparr>files := (files w)(filePath \<mapsto>
                        \<lparr>contents = written_text fileContents, mtime = now e\<rparr>)\<rparr>))"

text \<open>
  Lines 139 to 156. The result is the write request that is issued at once, the outcome of
  the promise once the write has completed, and the state after it.
\<close>

definition saveMovieInfo ::
  "env \<Rightarrow> world \<Rightarrow> string \<Rightarrow> json option \<Rightarrow> event \<times> outcome \<times> world" where
  "saveMovieInfo e w tmdb_id movieInfo =
     (let filePath = getInfoCacheFilePathFromId tmdb_id;
          fileContents = JSON_stringify movieInfo
      in case fs_writeFile e w filePath fileContents of
           (err, w') \<Rightarrow>
             (FsWriteFile filePath fileContents,
              if truthy err then Rejected err
              else Resolved (Json (JObj [(''saveMovieInfo'', JBool True), (''filePath'', JStr filePath)])),
              w'))"

text \<open>
  The handlers that \<open>fetchMovieInfo\<close> and \<open>fetchAPIConfiguration\<close> attach to the promise
  of the save (lines 177 to 182 and 253 to 258): log the saved path, or print the error.
\<close>

definition save_handlers :: "outcome \<Rightarrow> event list" where
  "save_handlers saved =
     (case saved of
        Resolved results \<Rightarrow>
          (case get_prop results ''filePath'' of
             Inr filePath \<Rightarrow> [ConsoleLog [Str (to_str filePath @ '' saved.'')]]
           | Inl exn \<Rightarrow> [ConsoleError [exn]])
      | Rejected err \<Rightarrow> [ConsoleError [err]]
      | Pending \<Rightarrow> [])"

text \<open>
  Lines 166 to 186, the body of the service callback. A non-null \<open>err\<close> rejects, and
  execution continues: \<open>data.title\<close> is read for the log line (an exception there leaves
  the callback), the save is started, and \<open>resolve(data)\<close> is called before the write can
  complete.
\<close>

definition fetchMovieInfo :: "env \<Rightarrow> world \<Rightarrow> string \<Rightarrow> run" where
  "fetchMovieInfo e w tmdb_id =
     (case movieInfo_result e tmdb_id of
        (err, data) \<Rightarrow>
          (let rejected = (if err \<noteq> Null then [Reject err] else [])
           in case get_prop (of_data data) ''title'' of
                Inl exn \<Rightarrow>
                  \<lparr>trace = MovieDB_movieInfo tmdb_id # rejected @ [Uncaught exn],
                   background = [], world_after = w\<rparr>
              | Inr title \<Rightarrow>
                  (case saveMovieInfo e w tmdb_id data of
                     (started, saved, w') \<Rightarrow>
                       \<lparr>trace = MovieDB_movieInfo tmdb_id # rejected @
                          [ConsoleLog [Str (''Info for '' @ tmdb_id @ '' ('' @ to_str title @ '') fetched.'')],
                           started,
                           Resolve (of_data data)],
                        background = save_handlers saved,
                        world_after = w'\<rparr>)))"

definition after_events :: "event list \<Rightarrow> run \<Rightarrow> run" where
  "after_events evs r = r\<lparr>trace := evs @ trace r\<rparr>"

text \<open>
  Lines 194 to 209. The \<open>catch\<close> handler is chained after the \<open>then\<close> handler, so it also
  runs when \<open>results[1].title\<close> throws.
\<close>

definition getMovieInfo :: "env \<Rightarrow> world \<Rightarrow> string \<Rightarrow> run" where
  "getMovieInfo e w tmdb_id =
     (let cacheFilePath = getInfoCacheFilePathFromId tmdb_id
      in case validateCacheFile e w cacheFilePath of
           (evs, Resolved results) \<Rightarrow>
             (case get_prop (get_index results 1) ''title'' of
                Inr title \<Rightarrow>
                  \<lparr>trace = evs @
                     [ConsoleLog [Str (''Info for '' @ tmdb_id @ '' ('' @ to_str title @ '') found in cache.'')],
                      Resolve (get_index results 1)],
                   background = [], world_after = w\<rparr>
              | Inl exn \<Rightarrow> after_events evs (fetchMovieInfo e w tmdb_id))
         | (evs, Rejected err) \<Rightarrow> after_events evs (fetchMovieInfo e w tmdb_id)
         | (evs, Pending) \<Rightarrow> \<lparr>trace = evs, background = [], world_after = w\<rparr>)"

text \<open>
  Lines 217 to 282: the same three functions for the configuration.
\<close>

definition saveAPIConfiguration ::
  "env \<Rightarrow> world \<Rightarrow> json option \<Rightarrow> event \<times> outcome \<times> world" where
  "saveAPIConfiguration e w configData =
     (let fileContents = JSON_stringify configData
      in case fs_writeFile e w configCacheFilePath fileContents of
           (err, w') \<Rightarrow>
             (FsWriteFile configCacheFilePath fileContents,
              if truthy err then Rejected err
              else Resolved (Json (JObj [(''saveAPIConfiguration'', JBool True),
                                         (''filePath'', JStr configCacheFilePath)])),
              w'))"

definition fetchAPIConfiguration :: "env \<Rightarrow> world \<Rightarrow> run" where
  "fetchAPIConfiguration e w =
     (case configuration_result e of
        (err, data) \<Rightarrow>
          (let rejected = (if err \<noteq> Null then [Reject err] else [])
           in case saveAPIConfiguration e w data of
                (started, saved, w') \<Rightarrow>
                  \<lparr>trace = MovieDB_configuration # rejected @
                     [ConsoleLog [Str ''API configuration fetched.''],
                      started,
                      Resolve (of_data data)],
                   background = save_handlers saved,
                   world_after = w'\<rparr>))"

definition getAPIConfiguration :: "env \<Rightarrow> world \<Rightarrow> run" where
  "getAPIConfiguration e w =
     (case validateCacheFile e w configCacheFilePath of
        (evs, Resolved results) \<Rightarrow>
          \<lparr>trace = evs @
             [ConsoleLog [Str ''Configuration data found in cache.''],
              Resolve (get_index results 1)],
           background = [], world_after = w\<rparr>
      | (evs, Rejected err) \<Rightarrow> after_events evs (fetchAPIConfiguration e w)
      | (evs, Pending) \<Rightarrow> \<lparr>trace = evs, background = [], world_after = w\<rparr>)"

text \<open>
  Lines 287 to 307. \<open>results.images.base_url\<close> throws when \<open>results\<close> or
  \<open>results.images\<close> is \<open>null\<close> or \<open>undefined\<close>; the \<open>catch\<close> handler then rejects with
  the current value of the variable, as it does when the configuration is rejected. The
  events of the inner promise are kept, without its own \<open>resolve\<close> and \<open>reject\<close>
  calls.
\<close>

definition images_base_url :: "val \<Rightarrow> val + val" where
  "images_base_url results =
     (case get_prop results ''images'' of
        Inl exn \<Rightarrow> Inl exn
      | Inr images \<Rightarrow> get_prop images ''base_url'')"

definition getTMDBImagesBaseUrl :: "env \<Rightarrow> world \<Rightarrow> run" where
  "getTMDBImagesBaseUrl e w =
     (if tmdbImagesBaseUrl w \<noteq> Undefined then
        \<lparr>trace = [ConsoleLog [Str ''tmdbImagesBaseUrl already set.''],
                  Resolve (tmdbImagesBaseUrl w)],
         background = [], world_after = w\<rparr>
      else
        (let r = getAPIConfiguration e w;
             w' = world_after r;
             evs = ConsoleLog [Str ''tmdbImagesBaseUrl not set.''] # inner_events (trace r)
         in case settled (trace r) of
              Resolved results \<Rightarrow>
                (case images_base_url results of
                   Inr base_url \<Rightarrow>
                     \<lparr>trace = evs @ [Assign_tmdbImagesBaseUrl base_url, Resolve base_url],
                      background = background r,
                      world_after = w'\<lparr>tmdbImagesBaseUrl := base_url\<rparr>\<rparr>
                 | Inl exn \<Rightarrow>
                     \<lparr>trace = evs @ [Reject (tmdbImagesBaseUrl w')],
                      background = background r, world_after = w'\<rparr>)
            | Rejected err \<Rightarrow>
                \<lparr>trace = evs @ [Reject (tmdbImagesBaseUrl w')],
                 background = background r, world_after = w'\<rparr>
            | Pending \<Rightarrow> \<lparr>trace = evs, background = background r, world_after = w'\<rparr>))"

text \<open>
  Lines 316 to 350. The response object is represented by its \<open>statusCode\<close>. The write
  stream has no \<open>error\<close> listener, so a failing stream is an uncaught exception and the
  promise stays pending.
\<close>

definition fetchAndSaveMoviePoster :: "env \<Rightarrow> world \<Rightarrow> string \<Rightarrow> string \<Rightarrow> run" where
  "fetchAndSaveMoviePoster e w posterFileName size' =
     (let destPath = getMoviePosterCachePath posterFileName size';
          r = getTMDBImagesBaseUrl e w;
          w' = world_after r;
          evs = inner_events (trace r)
      in case settled (trace r) of
           Resolved base \<Rightarrow>
             (let url = to_str base @ size' @ posterFileName;
                  evs' = evs @ [ConsoleLog [Str ''getTMDBImagesBaseUrl:tmdbImagesBaseUrl => '', base],
                                Request url]
              in case request_result e url of
                   HttpError err \<Rightarrow>
                     \<lparr>trace = evs' @ [ConsoleLog [Str ''request:error => '', err], Reject err],
                      background = background r, world_after = w'\<rparr>
                 | HttpResponse statusCode body \<Rightarrow>
                     if statusCode \<noteq> 200 then
                       \<lparr>trace = evs' @ [Reject (Json (JObj [(''statusCode'', JNum statusCode)]))],
                        background = background r, world_after = w'\<rparr>
                     else if writeStream_ok e destPath then
                       \<lparr>trace = evs' @ [FsCreateWriteStream destPath, Resolve (Str destPath)],
                        background = background r,
                        world_after = w'\<lparr>files := (files w')(destPath \<mapsto>
                                         \<lparr>contents = body, mtime = now e\<rparr>)\<rparr>\<rparr>
                     else
                       \<lparr>trace = evs' @ [FsCreateWriteStream destPath,
                                        Uncaught (ErrorObj ''write stream error'')],
                        background = background r, world_after = w'\<rparr>)
         | Rejected err \<Rightarrow>
             \<lparr>trace = evs @ [Reject err], background = background r, world_after = w'\<rparr>
         | Pending \<Rightarrow> \<lparr>trace = evs, background = background r, world_after = w'\<rparr>)"

text \<open>
  Lines 359 to 384. An absent \<open>size\<close> argument is \<open>None\<close>.
\<close>

definition getMoviePoster :: "env \<Rightarrow> world \<Rightarrow> string \<Rightarrow> string option \<Rightarrow> run" where
  "getMoviePoster e w posterFileName size_arg =
     (let size' = (case size_arg of None \<Rightarrow> ''original'' | Some s \<Rightarrow> s);
          destPath = getMoviePosterCachePath posterFileName size'
      in case validateCacheFileDate e w destPath of
           (evs, Resolved results) \<Rightarrow>
             \<lparr>trace = evs @
                [ConsoleLog [Str (''Poster '' @ posterFileName @ '' found in cache.'')],
                 Resolve (Str destPath)],
              background = [], world_after = w\<rparr>
         | (evs, Rejected err) \<Rightarrow>
             (let r = fetchAndSaveMoviePoster e w posterFileName size'
              in \<lparr>trace = evs @ inner_events (trace r) @
                      (case settled (trace r) of
                         Resolved result \<Rightarrow> [Resolve result]
                       | Rejected err' \<Rightarrow> [Reject err']
                       | Pending \<Rightarrow> []),
                  background = background r,
                  world_after = world_after r\<rparr>)
         | (evs, Pending) \<Rightarrow> \<lparr>trace = evs, background = [], world_after = w\<rparr>)"

section \<open>The batch driver\<close>



















section \<open>Example inputs\<close>

text \<open>
  Concrete environments, states and posts, on which the theorems below are instantiated.
\<close>

definition const_env :: "int \<Rightarrow> val \<times> json option \<Rightarrow> val \<times> json option \<Rightarrow> val \<Rightarrow> http \<Rightarrow> env" where
  "const_env t info config werr resp =
     \<lparr>now = t, movieInfo_result = (\<lambda>i. info), configuration_result = config,
      writeFile_err = (\<lambda>p. werr), request_result = (\<lambda>u. resp), writeStream_ok = (\<lambda>p. True)\<rparr>"

definition empty_world :: world where
  "empty_world = \<lparr>files = Map.empty, tmdbImagesBaseUrl = Undefined\<rparr>"

definition world_with :: "string \<Rightarrow> string \<Rightarrow> int \<Rightarrow> world" where
  "world_with p c t = \<lparr>files = [p \<mapsto> \<lparr>contents = c, mtime = t\<rparr>], tmdbImagesBaseUrl = Undefined\<rparr>"

definition quiet_env :: "int \<Rightarrow> env" where
  "quiet_env t = const_env t (Null, None) (Null, None) Null (HttpResponse 200 [])"

definition matrix :: json where
  "matrix = JObj [(''title'', JStr ''The Matrix''), (''poster_path'', JStr ''/poster.jpg''),
     (''genres'', JArr [JObj [(''name'', JStr ''Action'')]])]"

definition config_json :: json where
  "config_json = JObj [(''images'', JObj [(''base_url'', JStr ''http://image.tmdb.org/t/p/'')])]"

definition service_env :: "int \<Rightarrow> env" where
  "service_env t = const_env t (Null, Some matrix) (Null, Some config_json) Null (HttpResponse 200 ''JPEG'')"

definition failing_env :: "int \<Rightarrow> env" where
  "failing_env t =
     const_env t (ErrorObj ''ECONNRESET'', Some JNull) (ErrorObj ''ECONNRESET'', Some JNull) Null
       (HttpError (ErrorObj ''ECONNRESET''))"

definition error_with_data_env :: "int \<Rightarrow> env" where
  "error_with_data_env t =
     const_env t (ErrorObj ''ETIMEDOUT'', Some matrix) (ErrorObj ''ETIMEDOUT'', None) Null
       (HttpError (ErrorObj ''ETIMEDOUT''))"

definition disk_full_env :: "int \<Rightarrow> env" where
  "disk_full_env t = const_env t (Null, Some matrix) (Null, Some config_json)
     (ErrorObj ''ENOSPC'') (HttpResponse 200 ''JPEG'')"

definition configured_world :: world where
  "configured_world = \<lparr>files = Map.empty, tmdbImagesBaseUrl = Str ''http://image.tmdb.org/t/p/''\<rparr>"






section \<open>Parsing what stringify wrote\<close>

subsection \<open>Numbers\<close>
















subsection \<open>Strings and objects\<close>








subsection \<open>Values\<close>













section \<open>Facts about the runs of the cache functions\<close>

lemma settled_append:
  "\<not> list_ex is_settle xs \<Longrightarrow> settled (xs @ ys) = settled ys"
  by (induction xs rule: settled.induct) auto

lemma inner_events_no_settle: "\<not> list_ex is_settle (inner_events tr)"
  by (simp add: inner_events_def list_ex_iff)

lemma validateCacheFileDate_events:
  "\<not> list_ex is_settle (fst (validateCacheFileDate e w p))"
  "\<not> list_ex is_network (fst (validateCacheFileDate e w p))"
  by (auto simp: validateCacheFileDate_def isValidCacheFileDate_def Let_def
      split: option.splits)


lemma validateCacheFile_events:
  "\<not> list_ex is_settle (fst (validateCacheFile e w p))"
  "\<not> list_ex is_network (fst (validateCacheFile e w p))"
  by (auto simp: validateCacheFile_def validateCacheFileDate_def isValidCacheFileDate_def
      validateCacheFileContents_def Let_def split: option.splits)

lemma validateCacheFile_no_reject:
  "\<not> list_ex is_reject (fst (validateCacheFile e w p))"
  by (auto simp: validateCacheFile_def validateCacheFileDate_def isValidCacheFileDate_def
      validateCacheFileContents_def Let_def split: option.splits)

lemma validateCacheFileDate_env:
  "now e' = now e \<Longrightarrow> validateCacheFileDate e' w p = validateCacheFileDate e w p"
  by (auto simp: validateCacheFileDate_def split: option.splits)

lemma validateCacheFile_env:
  "now e' = now e \<Longrightarrow> validateCacheFile e' w p = validateCacheFile e w p"
  using validateCacheFileDate_env [of e' e w p] by (simp add: validateCacheFile_def)

lemma get_prop_json: "j \<noteq> JNull \<Longrightarrow> \<exists>t. get_prop (Json j) k = Inr t"
  by (cases j) auto

lemma get_prop_data_throws:
  "d = None \<or> d = Some JNull \<Longrightarrow> get_prop (of_data d) k = Inl type_error"
  by (auto simp: of_data_def)

lemma saveMovieInfo_outcome:
  "fst (snd (saveMovieInfo e w K d)) =
     (if truthy (writeFile_err e (getInfoCacheFilePathFromId K))
      then Rejected (writeFile_err e (getInfoCacheFilePathFromId K))
      else Resolved (Json (JObj [(''saveMovieInfo'', JBool True),
                                 (''filePath'', JStr (getInfoCacheFilePathFromId K))])))"
  by (simp add: saveMovieInfo_def fs_writeFile_def Let_def)


lemma save_handlers_saved:
  "save_handlers (fst (snd (saveMovieInfo e w K d))) =
     (if truthy (writeFile_err e (getInfoCacheFilePathFromId K))
      then [ConsoleError [writeFile_err e (getInfoCacheFilePathFromId K)]]
      else [ConsoleLog [Str (getInfoCacheFilePathFromId K @ '' saved.'')]])"
  by (simp add: saveMovieInfo_outcome save_handlers_def)

lemma fetchMovieInfo_ok:
  assumes "movieInfo_result e K = (err, Some j)" and "get_prop (Json j) ''title'' = Inr t"
  shows "fetchMovieInfo e w K =
     \<lparr>trace = MovieDB_movieInfo K # (if err \<noteq> Null then [Reject err] else []) @
        [ConsoleLog [Str (''Info for '' @ K @ '' ('' @ to_str t @ '') fetched.'')],
         FsWriteFile (getInfoCacheFilePathFromId K) (Some (stringify j)),
         Resolve (Json j)],
      background = save_handlers (fst (snd (saveMovieInfo e w K (Some j)))),
      world_after = snd (snd (saveMovieInfo e w K (Some j)))\<rparr>"
proof -
  obtain started saved w' where s: "saveMovieInfo e w K (Some j) = (started, saved, w')"
    by (cases "saveMovieInfo e w K (Some j)")
  then have "started = FsWriteFile (getInfoCacheFilePathFromId K) (Some (stringify j))"
    by (auto simp: saveMovieInfo_def Let_def JSON_stringify_def split: prod.splits)
  with s assms show ?thesis
    by (simp add: fetchMovieInfo_def of_data_def)
qed


lemma fetchMovieInfo_trace_env:
  "movieInfo_result e' K = movieInfo_result e K \<Longrightarrow>
   trace (fetchMovieInfo e' w K) = trace (fetchMovieInfo e w K)"
  by (auto simp: fetchMovieInfo_def saveMovieInfo_def Let_def split: prod.splits sum.splits)

lemma not_network_member:
  "\<not> list_ex is_network evs \<Longrightarrow> MovieDB_movieInfo K \<notin> set evs"
  by (auto simp: list_ex_iff)

lemma getMovieInfo_network:
  assumes "MovieDB_movieInfo K \<in> set (trace (getMovieInfo e w K))"
  shows "getMovieInfo e w K =
     after_events (fst (validateCacheFile e w (getInfoCacheFilePathFromId K))) (fetchMovieInfo e w K)"
proof -
  let ?p = "getInfoCacheFilePathFromId K"
  obtain evs out where v: "validateCacheFile e w ?p = (evs, out)"
    by (cases "validateCacheFile e w ?p")
  have "MovieDB_movieInfo K \<notin> set evs"
    using validateCacheFile_events(2) [of e w ?p] v by (simp add: not_network_member)
  with assms v show ?thesis
    by (auto simp: getMovieInfo_def Let_def split: outcome.splits sum.splits)
qed


lemma getMovieInfo_trace_env:
  assumes "now e' = now e" and "movieInfo_result e' K = movieInfo_result e K"
  shows "trace (getMovieInfo e' w K) = trace (getMovieInfo e w K)"
  using validateCacheFile_env [OF assms(1), of w "getInfoCacheFilePathFromId K"]
    fetchMovieInfo_trace_env [OF assms(2), of w]
  by (auto simp: getMovieInfo_def Let_def after_events_def split: prod.splits outcome.splits sum.splits)


lemma fs_writeFile_singleton:
  "fs_writeFile e w p d = (err, w') \<Longrightarrow> tmdbImagesBaseUrl w' = tmdbImagesBaseUrl w"
  by (auto simp: fs_writeFile_def Let_def split: if_splits)

lemma getAPIConfiguration_singleton:
  "tmdbImagesBaseUrl (world_after (getAPIConfiguration e w)) = tmdbImagesBaseUrl w"
proof -
  have "tmdbImagesBaseUrl (world_after (fetchAPIConfiguration e w)) = tmdbImagesBaseUrl w"
    by (auto simp: fetchAPIConfiguration_def saveAPIConfiguration_def Let_def
        split: prod.splits dest: fs_writeFile_singleton)
  then show ?thesis
    by (auto simp: getAPIConfiguration_def after_events_def split: prod.splits outcome.splits)
qed

section \<open>Facts about the batch driver\<close>




section \<open>Cache freshness\<close>

text \<open>
  Claim C1, as amended. For a cache key whose backing file was written at time \<open>T\<close> (its
  \<open>mtime\<close>), the freshness check with the default TTL of 30 days resolves for every check
  time up to and including \<open>T + TTL\<close>, and rejects, with the null \<open>err\<close> of \<open>fs.stat\<close>
  as reason, for every check time strictly after \<open>T + TTL\<close>: \<open>isBefore\<close> is a strict
  comparison, so the entry is still valid at the instant of expiry.
\<close>

theorem freshness_boundary:
  assumes "files w K = Some f"
  shows "(now e \<le> mtime f + defaultTtl \<longrightarrow>
            snd (validateCacheFileDate e w K) =
              Resolved (Json (JObj [(''isValidCacheFileDate'', JBool True)])))
       \<and> (mtime f + defaultTtl < now e \<longrightarrow> snd (validateCacheFileDate e w K) = Rejected Null)
       \<and> (snd (isValidCacheFileDate (now e) (mtime f) None) \<longleftrightarrow> now e \<le> mtime f + defaultTtl)
       \<and> defaultTtl = 30 * (24 * 60 * 60 * 1000)"
  using assms
  by (auto simp: validateCacheFileDate_def isValidCacheFileDate_def Let_def defaultTtl_def)

theorem freshness_boundary_witness:
  "files (world_with ''k'' ''{}'' 5) ''k'' = Some \<lparr>contents = ''{}'', mtime = 5\<rparr>
   \<and> snd (validateCacheFileDate (quiet_env (5 + defaultTtl)) (world_with ''k'' ''{}'' 5) ''k'') =
       Resolved (Json (JObj [(''isValidCacheFileDate'', JBool True)]))
   \<and> snd (validateCacheFileDate (quiet_env (6 + defaultTtl)) (world_with ''k'' ''{}'' 5) ''k'') =
       Rejected Null"
proof -
  have h: "files (world_with ''k'' ''{}'' 5) ''k'' = Some \<lparr>contents = ''{}'', mtime = 5\<rparr>"
    by (simp add: world_with_def)
  show ?thesis
    using h freshness_boundary [OF h, of "quiet_env (5 + defaultTtl)"]
      freshness_boundary [OF h, of "quiet_env (6 + defaultTtl)"]
    by (simp add: quiet_env_def const_env_def)
qed

text \<open>
  Claim C1 as stated fails at the check time \<open>T + TTL\<close> itself: a file written at time 0
  and checked at \<open>defaultTtl\<close> is accepted.
\<close>

theorem freshness_at_expiry_counterexample:
  "snd (validateCacheFileDate (quiet_env (0 + defaultTtl)) (world_with ''k'' ''{}'' 0) ''k'') =
     Resolved (Json (JObj [(''isValidCacheFileDate'', JBool True)]))"
  by (simp add: validateCacheFileDate_def isValidCacheFileDate_def world_with_def
      quiet_env_def const_env_def)

section \<open>Storage paths\<close>

lemma poster_path_eq_iff:
  "getMoviePosterCachePath p1 s1 = getMoviePosterCachePath p2 s2 \<longleftrightarrow> s1 @ p1 = s2 @ p2"
  by (simp add: getMoviePosterCachePath_def)

lemma takeWhile_until: "c \<notin> set s \<Longrightarrow> takeWhile (\<lambda>x. x \<noteq> c) (s @ c # q) = s"
  by (induction s) auto

lemma slash_split:
  assumes "s1 @ p1 = s2 @ p2" "take 1 p1 = ''/''" "take 1 p2 = ''/''"
    "CHR ''/'' \<notin> set s1" "CHR ''/'' \<notin> set s2"
  shows "s1 = s2 \<and> p1 = p2"
proof -
  obtain q1 where p1: "p1 = CHR ''/'' # q1" using assms(2) by (cases p1) auto
  obtain q2 where p2: "p2 = CHR ''/'' # q2" using assms(3) by (cases p2) auto
  have "takeWhile (\<lambda>c. c \<noteq> CHR ''/'') (s1 @ p1) = s1"
    using assms(4) p1 by (simp add: takeWhile_until)
  moreover have "takeWhile (\<lambda>c. c \<noteq> CHR ''/'') (s2 @ p2) = s2"
    using assms(5) p2 by (simp add: takeWhile_until)
  ultimately have "s1 = s2" using assms(1) by simp
  with assms(1) show ?thesis by simp
qed

text \<open>
  Claim C2, as amended. Two (poster identifier, size) pairs get the same storage path exactly
  when the concatenations size + identifier coincide. Hence two distinct pairs whose poster
  identifiers begin with a slash and whose sizes contain no slash never collide, and no
  poster path ever equals a structured-metadata path produced by
  \<open>getInfoCacheFilePathFromId\<close>.
\<close>

theorem poster_paths_distinct:
  "(getMoviePosterCachePath p1 s1 = getMoviePosterCachePath p2 s2 \<longleftrightarrow> s1 @ p1 = s2 @ p2)
   \<and> (take 1 p1 = ''/'' \<and> take 1 p2 = ''/'' \<and> CHR ''/'' \<notin> set s1 \<and> CHR ''/'' \<notin> set s2
        \<and> (p1, s1) \<noteq> (p2, s2)
       \<longrightarrow> getMoviePosterCachePath p1 s1 \<noteq> getMoviePosterCachePath p2 s2)
   \<and> getMoviePosterCachePath p1 s1 \<noteq> getInfoCacheFilePathFromId i"
proof (intro conjI impI)
  show "getMoviePosterCachePath p1 s1 = getMoviePosterCachePath p2 s2 \<longleftrightarrow> s1 @ p1 = s2 @ p2"
    by (rule poster_path_eq_iff)
  show "getMoviePosterCachePath p1 s1 \<noteq> getMoviePosterCachePath p2 s2"
    if "take 1 p1 = ''/'' \<and> take 1 p2 = ''/'' \<and> CHR ''/'' \<notin> set s1 \<and> CHR ''/'' \<notin> set s2
        \<and> (p1, s1) \<noteq> (p2, s2)"
    using that slash_split [of s1 p1 s2 p2] by (auto simp: poster_path_eq_iff)
  show "getMoviePosterCachePath p1 s1 \<noteq> getInfoCacheFilePathFromId i"
    by (simp add: getMoviePosterCachePath_def getInfoCacheFilePathFromId_def
        postersCachePath_def infoCachePath_def)
qed

theorem poster_paths_distinct_witness:
  "take 1 ''/a.jpg'' = ''/'' \<and> take 1 ''/b.jpg'' = ''/'' \<and> CHR ''/'' \<notin> set ''w500''
   \<and> CHR ''/'' \<notin> set ''original'' \<and> (''/a.jpg'', ''w500'') \<noteq> (''/b.jpg'', ''original'')
   \<and> getMoviePosterCachePath ''/a.jpg'' ''w500'' \<noteq> getMoviePosterCachePath ''/b.jpg'' ''original''"
  using poster_paths_distinct [of "''/a.jpg''" "''w500''" "''/b.jpg''" "''original''"]
  by simp

text \<open>
  Claim C2 as stated fails: without a separator between size and identifier, two distinct
  pairs share a path.
\<close>

theorem poster_paths_collide_counterexample:
  "(''500/a.jpg'', ''w'') \<noteq> (''/a.jpg'', ''w500'')
   \<and> getMoviePosterCachePath ''500/a.jpg'' ''w'' = getMoviePosterCachePath ''/a.jpg'' ''w500''"
  by (simp add: getMoviePosterCachePath_def)

section \<open>Metadata resolution\<close>



text \<open>
  Claim C4. When \<open>getMovieInfo\<close> goes to the network (a cache miss) and the service answers
  with a null \<open>err\<close> and a value \<open>j\<close>, the promise is resolved with \<open>j\<close> in the service
  callback itself, right after the write request has been issued: the trace up to the
  resolution is the same whatever the outcome of the write. The completion of the write only
  adds a console line afterwards, \<open>console.error\<close> of the error when it failed, and
  \<open>reject\<close> is never called.
\<close>

theorem fetch_resolves_before_write:
  assumes "MovieDB_movieInfo K \<in> set (trace (getMovieInfo e w K))"
    and "movieInfo_result e K = (Null, Some j)"
    and "j \<noteq> JNull"
  shows "(\<exists>msg. trace (getMovieInfo e w K) =
            fst (validateCacheFile e w (getInfoCacheFilePathFromId K)) @
            [MovieDB_movieInfo K, ConsoleLog [Str msg],
             FsWriteFile (getInfoCacheFilePathFromId K) (Some (stringify j)),
             Resolve (Json j)])
       \<and> settled (trace (getMovieInfo e w K)) = Resolved (Json j)
       \<and> trace (getMovieInfo (e\<lparr>writeFile_err := f\<rparr>) w K) = trace (getMovieInfo e w K)
       \<and> background (getMovieInfo e w K) =
           (if truthy (writeFile_err e (getInfoCacheFilePathFromId K))
            then [ConsoleError [writeFile_err e (getInfoCacheFilePathFromId K)]]
            else [ConsoleLog [Str (getInfoCacheFilePathFromId K @ '' saved.'')]])
       \<and> \<not> list_ex is_reject (trace (getMovieInfo e w K) @ background (getMovieInfo e w K))"
proof -
  let ?p = "getInfoCacheFilePathFromId K"
  let ?evs = "fst (validateCacheFile e w ?p)"
  let ?e' = "e\<lparr>writeFile_err := f\<rparr>"
  from assms(3) obtain t where t: "get_prop (Json j) ''title'' = Inr t"
    using get_prop_json by blast
  let ?msg = "''Info for '' @ K @ '' ('' @ to_str t @ '') fetched.''"
  let ?tail = "[MovieDB_movieInfo K, ConsoleLog [Str ?msg],
             FsWriteFile ?p (Some (stringify j)), Resolve (Json j)]"
  note run = getMovieInfo_network [OF assms(1)] fetchMovieInfo_ok [OF assms(2) t, of w]
  have tr: "trace (getMovieInfo e w K) = ?evs @ ?tail"
    using run by (simp add: after_events_def)
  have nse: "\<not> list_ex is_settle ?evs" by (rule validateCacheFile_events(1))
  have nre: "\<not> list_ex is_reject ?evs" by (rule validateCacheFile_no_reject)
  have bg: "background (getMovieInfo e w K) =
           (if truthy (writeFile_err e ?p) then [ConsoleError [writeFile_err e ?p]]
            else [ConsoleLog [Str (?p @ '' saved.'')]])"
    using run by (simp add: after_events_def save_handlers_saved)
  have c1: "\<exists>msg. trace (getMovieInfo e w K) = ?evs @
            [MovieDB_movieInfo K, ConsoleLog [Str msg],
             FsWriteFile ?p (Some (stringify j)), Resolve (Json j)]"
    using tr by (intro exI [of _ ?msg])
  have c2: "settled (trace (getMovieInfo e w K)) = Resolved (Json j)"
    using settled_append [OF nse, of ?tail] by (simp only: tr) simp
  have c3: "trace (getMovieInfo ?e' w K) = trace (getMovieInfo e w K)"
    by (rule getMovieInfo_trace_env) simp_all
  have "\<not> list_ex is_reject (background (getMovieInfo e w K))"
    by (simp only: bg) simp
  with nre have c5: "\<not> list_ex is_reject (trace (getMovieInfo e w K) @ background (getMovieInfo e w K))"
    by (simp only: tr) simp
  from c1 c2 c3 bg c5 show ?thesis by (intro conjI)
qed

theorem fetch_resolves_before_write_witness:
  "MovieDB_movieInfo ''603'' \<in> set (trace (getMovieInfo (disk_full_env 0) empty_world ''603''))
   \<and> movieInfo_result (disk_full_env 0) ''603'' = (Null, Some matrix)
   \<and> matrix \<noteq> JNull
   \<and> settled (trace (getMovieInfo (disk_full_env 0) empty_world ''603'')) = Resolved (Json matrix)
   \<and> background (getMovieInfo (disk_full_env 0) empty_world ''603'') =
       [ConsoleError [ErrorObj ''ENOSPC'']]"
proof -
  have a: "MovieDB_movieInfo ''603'' \<in> set (trace (getMovieInfo (disk_full_env 0) empty_world ''603''))"
    by code_simp
  have b: "movieInfo_result (disk_full_env 0) ''603'' = (Null, Some matrix)"
    by (simp add: disk_full_env_def const_env_def)
  have c: "matrix \<noteq> JNull" by (simp add: matrix_def)
  have d: "truthy (writeFile_err (disk_full_env 0) (getInfoCacheFilePathFromId ''603''))"
    "writeFile_err (disk_full_env 0) (getInfoCacheFilePathFromId ''603'') = ErrorObj ''ENOSPC''"
    by (simp_all add: disk_full_env_def const_env_def)
  from fetch_resolves_before_write [OF a b c] a b c d show ?thesis by simp
qed

section \<open>Poster resolution\<close>



section \<open>The image base URL\<close>

text \<open>
  Claim C6. When \<open>tmdbImagesBaseUrl\<close> holds a value, \<open>getTMDBImagesBaseUrl\<close> resolves
  with it at once and does nothing else. When the variable is still undefined and the call
  resolves with \<open>v\<close>, the assignment of \<open>v\<close> to the variable is the event just before
  the resolution, which is the first settlement of the promise; and if \<open>v\<close> is a defined
  value, every later call, in any environment, resolves with \<open>v\<close> at once, without any
  request to the file system or the network.
\<close>

theorem base_url_singleton:
  "(tmdbImagesBaseUrl w \<noteq> Undefined \<longrightarrow>
      getTMDBImagesBaseUrl e w =
        \<lparr>trace = [ConsoleLog [Str ''tmdbImagesBaseUrl already set.''], Resolve (tmdbImagesBaseUrl w)],
         background = [], world_after = w\<rparr>)
   \<and> (tmdbImagesBaseUrl w = Undefined \<and> settled (trace (getTMDBImagesBaseUrl e w)) = Resolved v \<longrightarrow>
        (\<exists>pre. trace (getTMDBImagesBaseUrl e w) = pre @ [Assign_tmdbImagesBaseUrl v, Resolve v]
               \<and> \<not> list_ex is_settle pre)
        \<and> tmdbImagesBaseUrl (world_after (getTMDBImagesBaseUrl e w)) = v
        \<and> (v \<noteq> Undefined \<longrightarrow>
             trace (getTMDBImagesBaseUrl e' (world_after (getTMDBImagesBaseUrl e w))) =
               [ConsoleLog [Str ''tmdbImagesBaseUrl already set.''], Resolve v]
             \<and> \<not> list_ex is_io (trace (getTMDBImagesBaseUrl e' (world_after (getTMDBImagesBaseUrl e w)))
                                  @ background (getTMDBImagesBaseUrl e' (world_after (getTMDBImagesBaseUrl e w))))))"
proof (intro conjI impI)
  show "getTMDBImagesBaseUrl e w =
        \<lparr>trace = [ConsoleLog [Str ''tmdbImagesBaseUrl already set.''], Resolve (tmdbImagesBaseUrl w)],
         background = [], world_after = w\<rparr>" if "tmdbImagesBaseUrl w \<noteq> Undefined"
    using that by (simp add: getTMDBImagesBaseUrl_def)
next
  assume a: "tmdbImagesBaseUrl w = Undefined \<and> settled (trace (getTMDBImagesBaseUrl e w)) = Resolved v"
  then have unset: "tmdbImagesBaseUrl w = Undefined"
    and res: "settled (trace (getTMDBImagesBaseUrl e w)) = Resolved v" by simp_all
  let ?r = "getAPIConfiguration e w"
  let ?evs = "ConsoleLog [Str ''tmdbImagesBaseUrl not set.''] # inner_events (trace ?r)"
  have ns: "\<not> list_ex is_settle ?evs" using inner_events_no_settle [of "trace ?r"] by simp
  have run: "getTMDBImagesBaseUrl e w =
      \<lparr>trace = ?evs @ [Assign_tmdbImagesBaseUrl v, Resolve v], background = background ?r,
       world_after = (world_after ?r)\<lparr>tmdbImagesBaseUrl := v\<rparr>\<rparr>"
  proof (cases "settled (trace ?r)")
    case Pending
    with unset have "trace (getTMDBImagesBaseUrl e w) = ?evs @ []"
      by (simp add: getTMDBImagesBaseUrl_def Let_def)
    with res settled_append [OF ns, of "[]"] show ?thesis by simp
  next
    case (Rejected err)
    with unset have "trace (getTMDBImagesBaseUrl e w) = ?evs @ [Reject (tmdbImagesBaseUrl (world_after ?r))]"
      by (simp add: getTMDBImagesBaseUrl_def Let_def)
    with res settled_append [OF ns, of "[Reject (tmdbImagesBaseUrl (world_after ?r))]"]
    show ?thesis by simp
  next
    case (Resolved results)
    show ?thesis
    proof (cases "images_base_url results")
      case (Inl exn)
      with unset Resolved
      have "trace (getTMDBImagesBaseUrl e w) = ?evs @ [Reject (tmdbImagesBaseUrl (world_after ?r))]"
        by (simp add: getTMDBImagesBaseUrl_def Let_def)
      with res settled_append [OF ns, of "[Reject (tmdbImagesBaseUrl (world_after ?r))]"]
      show ?thesis by simp
    next
      case (Inr b)
      with unset Resolved
      have run': "getTMDBImagesBaseUrl e w =
        \<lparr>trace = ?evs @ [Assign_tmdbImagesBaseUrl b, Resolve b], background = background ?r,
         world_after = (world_after ?r)\<lparr>tmdbImagesBaseUrl := b\<rparr>\<rparr>"
        by (simp add: getTMDBImagesBaseUrl_def Let_def)
      with res settled_append [OF ns, of "[Assign_tmdbImagesBaseUrl b, Resolve b]"]
      have "v = b" by simp
      with run' show ?thesis by simp
    qed
  qed
  from run ns show "\<exists>pre. trace (getTMDBImagesBaseUrl e w) = pre @ [Assign_tmdbImagesBaseUrl v, Resolve v]
               \<and> \<not> list_ex is_settle pre"
    by (intro exI [of _ ?evs]) simp
  from run show "tmdbImagesBaseUrl (world_after (getTMDBImagesBaseUrl e w)) = v" by simp
  assume "v \<noteq> Undefined"
  with run show "trace (getTMDBImagesBaseUrl e' (world_after (getTMDBImagesBaseUrl e w))) =
               [ConsoleLog [Str ''tmdbImagesBaseUrl already set.''], Resolve v]"
    by (simp add: getTMDBImagesBaseUrl_def)
  from \<open>v \<noteq> Undefined\<close> run
  show "\<not> list_ex is_io (trace (getTMDBImagesBaseUrl e' (world_after (getTMDBImagesBaseUrl e w)))
                                  @ background (getTMDBImagesBaseUrl e' (world_after (getTMDBImagesBaseUrl e w))))"
    by (simp add: getTMDBImagesBaseUrl_def)
qed

theorem base_url_singleton_witness:
  "tmdbImagesBaseUrl configured_world \<noteq> Undefined
   \<and> getTMDBImagesBaseUrl (failing_env 5) configured_world =
       \<lparr>trace = [ConsoleLog [Str ''tmdbImagesBaseUrl already set.''],
                 Resolve (Str ''http://image.tmdb.org/t/p/'')],
        background = [], world_after = configured_world\<rparr>
   \<and> tmdbImagesBaseUrl empty_world = Undefined
   \<and> settled (trace (getTMDBImagesBaseUrl (service_env 0) empty_world)) =
       Resolved (Str ''http://image.tmdb.org/t/p/'')
   \<and> (\<exists>pre. trace (getTMDBImagesBaseUrl (service_env 0) empty_world) =
          pre @ [Assign_tmdbImagesBaseUrl (Str ''http://image.tmdb.org/t/p/''),
                 Resolve (Str ''http://image.tmdb.org/t/p/'')]
          \<and> \<not> list_ex is_settle pre)
   \<and> tmdbImagesBaseUrl (world_after (getTMDBImagesBaseUrl (service_env 0) empty_world)) =
       Str ''http://image.tmdb.org/t/p/''
   \<and> trace (getTMDBImagesBaseUrl (failing_env 5)
               (world_after (getTMDBImagesBaseUrl (service_env 0) empty_world))) =
       [ConsoleLog [Str ''tmdbImagesBaseUrl already set.''], Resolve (Str ''http://image.tmdb.org/t/p/'')]"
proof -
  have s: "tmdbImagesBaseUrl configured_world \<noteq> Undefined"
    and sv: "tmdbImagesBaseUrl configured_world = Str ''http://image.tmdb.org/t/p/''"
    by (simp_all add: configured_world_def)
  have u: "tmdbImagesBaseUrl empty_world = Undefined" by (simp add: empty_world_def)
  have r: "settled (trace (getTMDBImagesBaseUrl (service_env 0) empty_world)) =
       Resolved (Str ''http://image.tmdb.org/t/p/'')"
    by code_simp
  have d: "Str ''http://image.tmdb.org/t/p/'' \<noteq> Undefined" by simp
  from base_url_singleton [of configured_world "failing_env 5"] s sv
  have one: "getTMDBImagesBaseUrl (failing_env 5) configured_world =
       \<lparr>trace = [ConsoleLog [Str ''tmdbImagesBaseUrl already set.''],
                 Resolve (Str ''http://image.tmdb.org/t/p/'')],
        background = [], world_after = configured_world\<rparr>" by simp
  from base_url_singleton [of empty_world "service_env 0" "Str ''http://image.tmdb.org/t/p/''"
      "failing_env 5"] u r d s one
  show ?thesis by blast
qed

section \<open>Independence of the posts of a batch\<close>



section \<open>Round trip through the cache\<close>



section \<open>Errors reported by the service\<close>

text \<open>
  Claim C9, as amended. In both fetch functions a non-null \<open>err\<close> rejects the promise and
  execution goes on. \<open>fetchMovieInfo\<close> then reads \<open>data.title\<close>: for null or undefined
  data this throws after the rejection, before anything is saved; for other data the value
  is saved and \<open>resolve\<close> is called on the already rejected promise.
  \<open>fetchAPIConfiguration\<close> reads no field of \<open>data\<close>: for any data it goes on to the
  save and to the call of \<open>resolve\<close>, the promise stays rejected with \<open>err\<close>, and no
  exception is thrown.
\<close>

theorem reject_without_return:
  assumes "movieInfo_result e K = (err, d)" and "err \<noteq> Null"
    and "configuration_result e = (cerr, cd)" and "cerr \<noteq> Null"
  shows "(d = None \<or> d = Some JNull \<longrightarrow>
            fetchMovieInfo e w K =
              \<lparr>trace = [MovieDB_movieInfo K, Reject err, Uncaught type_error],
               background = [], world_after = w\<rparr>)
       \<and> (\<forall>j. d = Some j \<and> j \<noteq> JNull \<longrightarrow>
            (\<exists>msg. trace (fetchMovieInfo e w K) =
               [MovieDB_movieInfo K, Reject err, ConsoleLog [Str msg],
                FsWriteFile (getInfoCacheFilePathFromId K) (Some (stringify j)),
                Resolve (Json j)]))
       \<and> trace (fetchAPIConfiguration e w) =
            [MovieDB_configuration, Reject cerr, ConsoleLog [Str ''API configuration fetched.''],
             FsWriteFile configCacheFilePath (JSON_stringify cd), Resolve (of_data cd)]
       \<and> settled (trace (fetchAPIConfiguration e w)) = Rejected cerr
       \<and> \<not> list_ex is_uncaught (trace (fetchAPIConfiguration e w) @ background (fetchAPIConfiguration e w))"
proof (intro conjI impI allI)
  assume "d = None \<or> d = Some JNull"
  from get_prop_data_throws [OF this, of "''title''"] assms(1,2)
  show "fetchMovieInfo e w K =
      \<lparr>trace = [MovieDB_movieInfo K, Reject err, Uncaught type_error],
       background = [], world_after = w\<rparr>"
    by (simp add: fetchMovieInfo_def)
next
  fix j assume "d = Some j \<and> j \<noteq> JNull"
  then have d: "d = Some j" and "j \<noteq> JNull" by simp_all
  then obtain t where "get_prop (Json j) ''title'' = Inr t" using get_prop_json by blast
  with d assms(1,2)
  show "\<exists>msg. trace (fetchMovieInfo e w K) =
               [MovieDB_movieInfo K, Reject err, ConsoleLog [Str msg],
                FsWriteFile (getInfoCacheFilePathFromId K) (Some (stringify j)),
                Resolve (Json j)]"
    by (simp add: fetchMovieInfo_def of_data_def saveMovieInfo_def fs_writeFile_def Let_def
        JSON_stringify_def)
next
  from assms(3,4)
  show tr: "trace (fetchAPIConfiguration e w) =
            [MovieDB_configuration, Reject cerr, ConsoleLog [Str ''API configuration fetched.''],
             FsWriteFile configCacheFilePath (JSON_stringify cd), Resolve (of_data cd)]"
    by (simp add: fetchAPIConfiguration_def saveAPIConfiguration_def fs_writeFile_def Let_def)
  then show "settled (trace (fetchAPIConfiguration e w)) = Rejected cerr" by simp
  have "\<not> list_ex is_uncaught (save_handlers s)" for s
    by (auto simp: save_handlers_def split: outcome.splits sum.splits)
  moreover have "background (fetchAPIConfiguration e w) =
      save_handlers (fst (snd (saveAPIConfiguration e w cd)))"
    using assms(3) by (simp add: fetchAPIConfiguration_def Let_def split: prod.splits)
  ultimately show "\<not> list_ex is_uncaught
      (trace (fetchAPIConfiguration e w) @ background (fetchAPIConfiguration e w))"
    using tr by simp
qed

theorem reject_without_return_witness:
  "movieInfo_result (failing_env 0) ''603'' = (ErrorObj ''ECONNRESET'', Some JNull)
   \<and> ErrorObj ''ECONNRESET'' \<noteq> Null
   \<and> configuration_result (failing_env 0) = (ErrorObj ''ECONNRESET'', Some JNull)
   \<and> fetchMovieInfo (failing_env 0) empty_world ''603'' =
        \<lparr>trace = [MovieDB_movieInfo ''603'', Reject (ErrorObj ''ECONNRESET''), Uncaught type_error],
         background = [], world_after = empty_world\<rparr>
   \<and> trace (fetchAPIConfiguration (failing_env 0) empty_world) =
        [MovieDB_configuration, Reject (ErrorObj ''ECONNRESET''),
         ConsoleLog [Str ''API configuration fetched.''],
         FsWriteFile configCacheFilePath (Some ''null''), Resolve Null]
   \<and> movieInfo_result (error_with_data_env 0) ''603'' = (ErrorObj ''ETIMEDOUT'', Some matrix)
   \<and> ErrorObj ''ETIMEDOUT'' \<noteq> Null
   \<and> configuration_result (error_with_data_env 0) = (ErrorObj ''ETIMEDOUT'', None)
   \<and> matrix \<noteq> JNull
   \<and> (\<exists>msg. trace (fetchMovieInfo (error_with_data_env 0) empty_world ''603'') =
          [MovieDB_movieInfo ''603'', Reject (ErrorObj ''ETIMEDOUT''), ConsoleLog [Str msg],
           FsWriteFile (getInfoCacheFilePathFromId ''603'') (Some (stringify matrix)),
           Resolve (Json matrix)])
   \<and> settled (trace (fetchAPIConfiguration (error_with_data_env 0) empty_world)) =
       Rejected (ErrorObj ''ETIMEDOUT'')"
proof -
  have a: "movieInfo_result (failing_env 0) ''603'' = (ErrorObj ''ECONNRESET'', Some JNull)"
    and b: "configuration_result (failing_env 0) = (ErrorObj ''ECONNRESET'', Some JNull)"
    by (simp_all add: failing_env_def const_env_def)
  have c: "ErrorObj ''ECONNRESET'' \<noteq> Null" by simp
  have a': "movieInfo_result (error_with_data_env 0) ''603'' = (ErrorObj ''ETIMEDOUT'', Some matrix)"
    and b': "configuration_result (error_with_data_env 0) = (ErrorObj ''ETIMEDOUT'', None)"
    by (simp_all add: error_with_data_env_def const_env_def)
  have c': "ErrorObj ''ETIMEDOUT'' \<noteq> Null" by simp
  have m: "matrix \<noteq> JNull" by (simp add: matrix_def)
  note first = reject_without_return [OF a c b c, of empty_world]
  note second = reject_without_return [OF a' c' b' c', of empty_world]
  from first have f1: "fetchMovieInfo (failing_env 0) empty_world ''603'' =
        \<lparr>trace = [MovieDB_movieInfo ''603'', Reject (ErrorObj ''ECONNRESET''), Uncaught type_error],
         background = [], world_after = empty_world\<rparr>" by simp
  from first have f2: "trace (fetchAPIConfiguration (failing_env 0) empty_world) =
        [MovieDB_configuration, Reject (ErrorObj ''ECONNRESET''),
         ConsoleLog [Str ''API configuration fetched.''],
         FsWriteFile configCacheFilePath (Some ''null''), Resolve Null]"
    by (simp add: JSON_stringify_def of_data_def)
  from second m have s1: "\<exists>msg. trace (fetchMovieInfo (error_with_data_env 0) empty_world ''603'') =
          [MovieDB_movieInfo ''603'', Reject (ErrorObj ''ETIMEDOUT''), ConsoleLog [Str msg],
           FsWriteFile (getInfoCacheFilePathFromId ''603'') (Some (stringify matrix)),
           Resolve (Json matrix)]" by blast
  from second have s2: "settled (trace (fetchAPIConfiguration (error_with_data_env 0) empty_world)) =
       Rejected (ErrorObj ''ETIMEDOUT'')" by blast
  from a b c a' b' c' m f1 f2 s1 s2 show ?thesis by (intro conjI)
qed

text \<open>
  Claim C9 as stated fails for \<open>fetchAPIConfiguration\<close>: with an error and null data its
  callback rejects and throws nothing.
\<close>

theorem config_fetch_no_dereference_counterexample:
  "configuration_result (failing_env 0) = (ErrorObj ''ECONNRESET'', Some JNull)
   \<and> settled (trace (fetchAPIConfiguration (failing_env 0) empty_world)) =
       Rejected (ErrorObj ''ECONNRESET'')
   \<and> \<not> list_ex is_uncaught (trace (fetchAPIConfiguration (failing_env 0) empty_world)
                              @ background (fetchAPIConfiguration (failing_env 0) empty_world))"
  by code_simp

text \<open>
  Claim C10. When the variable is still undefined and \<open>getAPIConfiguration\<close> is rejected
  with some error, \<open>getTMDBImagesBaseUrl\<close> is rejected with \<open>undefined\<close>, the value of
  the variable, which stays undefined. \<open>fetchAndSaveMoviePoster\<close> passes that reason on,
  and so does every \<open>getMoviePoster\<close> call whose freshness check fails, with or without
  a size argument: the error itself reaches no caller.
\<close>

theorem config_failure_reason_lost:
  assumes "tmdbImagesBaseUrl w = Undefined"
    and "settled (trace (getAPIConfiguration e w)) = Rejected err"
  shows "settled (trace (getTMDBImagesBaseUrl e w)) = Rejected Undefined
       \<and> tmdbImagesBaseUrl (world_after (getTMDBImagesBaseUrl e w)) = Undefined
       \<and> settled (trace (fetchAndSaveMoviePoster e w p s)) = Rejected Undefined
       \<and> (snd (validateCacheFileDate e w (getMoviePosterCachePath p s)) = Rejected x \<longrightarrow>
            settled (trace (getMoviePoster e w p (Some s))) = Rejected Undefined)
       \<and> (snd (validateCacheFileDate e w (getMoviePosterCachePath p ''original'')) = Rejected y \<longrightarrow>
            settled (trace (getMoviePoster e w p None)) = Rejected Undefined)"
proof -
  let ?r = "getAPIConfiguration e w"
  let ?evs = "ConsoleLog [Str ''tmdbImagesBaseUrl not set.''] # inner_events (trace ?r)"
  have ns: "\<not> list_ex is_settle ?evs" using inner_events_no_settle [of "trace ?r"] by simp
  from assms(1,2) getAPIConfiguration_singleton [of e w]
  have run: "getTMDBImagesBaseUrl e w =
      \<lparr>trace = ?evs @ [Reject Undefined], background = background ?r, world_after = world_after ?r\<rparr>"
    by (simp add: getTMDBImagesBaseUrl_def Let_def)
  with settled_append [OF ns, of "[Reject Undefined]"]
  have base: "settled (trace (getTMDBImagesBaseUrl e w)) = Rejected Undefined" by simp
  from run assms(1) getAPIConfiguration_singleton [of e w]
  have keep: "tmdbImagesBaseUrl (world_after (getTMDBImagesBaseUrl e w)) = Undefined" by simp
  let ?g = "getTMDBImagesBaseUrl e w"
  have fetch: "settled (trace (fetchAndSaveMoviePoster e w p s')) = Rejected Undefined" for s'
  proof -
    from base have "trace (fetchAndSaveMoviePoster e w p s') =
        inner_events (trace ?g) @ [Reject Undefined]"
      by (simp add: fetchAndSaveMoviePoster_def Let_def)
    with settled_append [OF inner_events_no_settle, of "trace ?g" "[Reject Undefined]"]
    show ?thesis by simp
  qed
  have poster: "settled (trace (getMoviePoster e w p sz)) = Rejected Undefined"
    if "snd (validateCacheFileDate e w
              (getMoviePosterCachePath p (case sz of None \<Rightarrow> ''original'' | Some s' \<Rightarrow> s'))) = Rejected z"
    for sz z
  proof -
    let ?s = "case sz of None \<Rightarrow> ''original'' | Some s' \<Rightarrow> s'"
    let ?f = "fetchAndSaveMoviePoster e w p ?s"
    let ?d = "validateCacheFileDate e w (getMoviePosterCachePath p ?s)"
    obtain evs out where v: "?d = (evs, out)" by (cases ?d)
    with that have out: "out = Rejected z" by simp
    from v validateCacheFileDate_events(1) [of e w "getMoviePosterCachePath p ?s"]
    have nse: "\<not> list_ex is_settle evs" by simp
    from v out fetch [of ?s] have "trace (getMoviePoster e w p sz) =
        evs @ inner_events (trace ?f) @ [Reject Undefined]"
      by (simp add: getMoviePoster_def Let_def)
    moreover have "\<not> list_ex is_settle (evs @ inner_events (trace ?f))"
      using nse inner_events_no_settle [of "trace ?f"] by simp
    ultimately show ?thesis
      using settled_append [of "evs @ inner_events (trace ?f)" "[Reject Undefined]"] by simp
  qed
  from base keep fetch [of s] poster [of "Some s" x] poster [of None y]
  show ?thesis by simp
qed

theorem config_failure_reason_lost_witness:
  "tmdbImagesBaseUrl empty_world = Undefined
   \<and> settled (trace (getAPIConfiguration (failing_env 0) empty_world)) =
       Rejected (ErrorObj ''ECONNRESET'')
   \<and> snd (validateCacheFileDate (failing_env 0) empty_world
            (getMoviePosterCachePath ''/poster.jpg'' ''original'')) =
       Rejected (enoent ''./tmdb_cache/posters/original/poster.jpg'')
   \<and> snd (validateCacheFileDate (failing_env 0) empty_world
            (getMoviePosterCachePath ''/poster.jpg'' ''w500'')) =
       Rejected (enoent ''./tmdb_cache/posters/w500/poster.jpg'')
   \<and> settled (trace (getTMDBImagesBaseUrl (failing_env 0) empty_world)) = Rejected Undefined
   \<and> settled (trace (getMoviePoster (failing_env 0) empty_world ''/poster.jpg'' (Some ''w500''))) =
       Rejected Undefined
   \<and> settled (trace (getMoviePoster (failing_env 0) empty_world ''/poster.jpg'' None)) =
       Rejected Undefined"
proof -
  have a: "tmdbImagesBaseUrl empty_world = Undefined" by (simp add: empty_world_def)
  have b: "settled (trace (getAPIConfiguration (failing_env 0) empty_world)) =
       Rejected (ErrorObj ''ECONNRESET'')" by code_simp
  have c: "snd (validateCacheFileDate (failing_env 0) empty_world
            (getMoviePosterCachePath ''/poster.jpg'' ''original'')) =
       Rejected (enoent ''./tmdb_cache/posters/original/poster.jpg'')" by code_simp
  have d: "snd (validateCacheFileDate (failing_env 0) empty_world
            (getMoviePosterCachePath ''/poster.jpg'' ''w500'')) =
       Rejected (enoent ''./tmdb_cache/posters/w500/poster.jpg'')" by code_simp
  from config_failure_reason_lost [OF a b, of "''/poster.jpg''" "''w500''"
      "enoent ''./tmdb_cache/posters/w500/poster.jpg''"
      "enoent ''./tmdb_cache/posters/original/poster.jpg''"] a b c d
  show ?thesis by blast
qed

end
